theory Spec2Isabelle
  imports Complex_Main
begin

section \<open>Learning-rate schedules of the notebook\<close>

text \<open>
  The notebook \<^verbatim>\<open>12-week12/1-deep-learning-learning-schedules.ipynb\<close> defines a
  learning-rate range test (\<^verbatim>\<open>ExponentialLearningRate\<close>, \<^verbatim>\<open>find_learning_rate\<close>),
  a power schedule (\<^verbatim>\<open>PowerScheduling\<close>), a one-cycle callback
  (\<^verbatim>\<open>OneCycleScheduler\<close>) and instantiates two schedules of the framework.

  Numbers. Python floats and the framework's 32-bit floats are idealised as \<^typ>\<open>real\<close>:
  every statement below is about exact arithmetic and says nothing about rounding,
  overflow or NaN. Python integers are \<^typ>\<open>int\<close>; lengths, epoch counts and batch
  sizes that are handed to the framework's training loop are \<^typ>\<open>nat\<close>.
\<close>

subsection \<open>Python and tensor arithmetic\<close>

datatype py_error =
  ZeroDivisionError | TypeError | KeyError | AttributeError | ValueError

text \<open>
  Where the model of a function stops short of a result: the program raises an
  exception, or it goes on with a number that is not real. The second is no error of the
  program: nothing is raised, and the model says nothing about what the program does
  from there on.
\<close>

datatype stop = Raises py_error | NotReal

text \<open>Python's \<^verbatim>\<open>a / b\<close> on numbers raises when the divisor is zero.\<close>

definition py_truediv :: "real \<Rightarrow> real \<Rightarrow> py_error + real" where
  "py_truediv a b = (if b = 0 then Inl ZeroDivisionError else Inr (a / b))"

text \<open>
  Python's \<^verbatim>\<open>x ** y\<close> on floats. A zero base with a negative exponent raises. A
  negative base with an exponent that is not a whole number gives a complex number:
  nothing is raised and the program goes on with it; the real-valued model cannot follow
  it and stops (\<open>NotReal\<close>).
\<close>

definition py_pow :: "real \<Rightarrow> real \<Rightarrow> stop + real" where
  "py_pow x y =
     (if 0 < x then Inr (x powr y)
      else if x = 0 then
        (if 0 < y then Inr 0 else if y = 0 then Inr 1 else Inl (Raises ZeroDivisionError))
      else if y = of_int \<lfloor>y\<rfloor> then Inr (x powi \<lfloor>y\<rfloor>)
      else Inl NotReal)"

text \<open>Python's \<^verbatim>\<open>a or b\<close> on an optional number: \<^verbatim>\<open>None\<close> and zero are falsy.\<close>

definition py_or :: "'a::zero option \<Rightarrow> 'a \<Rightarrow> 'a" where
  "py_or a b = (case a of None \<Rightarrow> b | Some v \<Rightarrow> if v = 0 then b else v)"

text \<open>
  Tensor arithmetic never raises: a division by zero or an undefined power gives an
  infinity or a NaN. \<open>None\<close> stands for a computation that has left the finite numbers,
  about which the real-valued model says nothing.
\<close>

definition tf_div :: "real \<Rightarrow> real \<Rightarrow> real option" where
  "tf_div a b = (if b = 0 then None else Some (a / b))"

definition tf_pow :: "real \<Rightarrow> real \<Rightarrow> real option" where
  "tf_pow x y =
     (if 0 < x then Some (x powr y)
      else if x = 0 then (if 0 < y then Some 0 else if y = 0 then Some 1 else None)
      else if y = of_int \<lfloor>y\<rfloor> then Some (x powi \<lfloor>y\<rfloor>)
      else None)"

text \<open>\<^verbatim>\<open>math.ceil(len(X) / batch_size)\<close>, the number of batches of one epoch.\<close>

definition ceil_div :: "nat \<Rightarrow> nat \<Rightarrow> nat" where
  "ceil_div len_X batch_size = nat \<lceil>real len_X / real batch_size\<rceil>"

definition epoch_steps :: "nat \<Rightarrow> nat \<Rightarrow> py_error + nat" where
  "epoch_steps len_X batch_size =
     (if batch_size = 0 then Inl ZeroDivisionError else Inr (ceil_div len_X batch_size))"

subsection \<open>The model under training\<close>

text \<open>
  What the notebook touches of a compiled model: its weights (\<^verbatim>\<open>get_weights\<close>,
  \<^verbatim>\<open>set_weights\<close>), the variable \<^verbatim>\<open>optimizer.learning_rate\<close>, and, through
  \<^verbatim>\<open>model.fit\<close>, whatever else the framework keeps with the model (the optimizer's
  step counter and slots, metric state, the history object).
\<close>

record ('w, 'o) keras_model =
  weights :: 'w
  learning_rate :: real
  other_state :: 'o

type_synonym logs = "string \<rightharpoonup> real"

text \<open>
  One training step of the framework on batch \<open>b\<close> of epoch \<open>e\<close>: it reads the model and
  gives the new weights, the new other state and the logs of the batch. It does not
  assign the learning-rate variable.
\<close>

type_synonym ('w, 'o) train_step =
  "('w, 'o) keras_model \<Rightarrow> nat \<Rightarrow> nat \<Rightarrow> 'w \<times> 'o \<times> logs"

subsection \<open>ExponentialLearningRate\<close>

text \<open>
  The callback's attributes. \<^verbatim>\<open>sum_of_epoch_losses\<close> does not exist before the first
  \<^verbatim>\<open>on_epoch_begin\<close>; \<open>None\<close> is the missing attribute.
\<close>

record ExponentialLearningRate =
  factor :: real
  rates :: "real list"
  losses :: "real list"
  sum_of_epoch_losses :: "real option"

definition ExponentialLearningRate_init :: "real \<Rightarrow> ExponentialLearningRate" where
  "ExponentialLearningRate_init f =
     \<lparr>factor = f, rates = [], losses = [], sum_of_epoch_losses = None\<rparr>"

definition on_epoch_begin ::
  "ExponentialLearningRate \<Rightarrow> int \<Rightarrow> logs option \<Rightarrow> ExponentialLearningRate" where
  "on_epoch_begin self epoch lg = self\<lparr>sum_of_epoch_losses := Some 0\<rparr>"

definition on_batch_end ::
  "ExponentialLearningRate \<Rightarrow> ('w, 'o) keras_model \<Rightarrow> int \<Rightarrow> logs option
   \<Rightarrow> py_error + ExponentialLearningRate \<times> ('w, 'o) keras_model" where
  "on_batch_end self m batch lg =
     (case lg of
        None \<Rightarrow> Inl TypeError
      | Some l \<Rightarrow>
         (case l ''loss'' of
            None \<Rightarrow> Inl KeyError
          | Some mean_epoch_loss \<Rightarrow>
             (let new_sum_of_epoch_losses = mean_epoch_loss * of_int (batch + 1) in
              case sum_of_epoch_losses self of
                None \<Rightarrow> Inl AttributeError
              | Some old_sum \<Rightarrow>
                 (let batch_loss = new_sum_of_epoch_losses - old_sum;
                      self1 = self\<lparr>sum_of_epoch_losses := Some new_sum_of_epoch_losses\<rparr>;
                      self2 = self1\<lparr>rates := rates self1 @ [learning_rate m]\<rparr>;
                      self3 = self2\<lparr>losses := losses self2 @ [batch_loss]\<rparr>;
                      new_lr = learning_rate m * factor self3
                  in Inr (self3, m\<lparr>learning_rate := new_lr\<rparr>)))))"

subsection \<open>The training loop, as the callback sees it\<close>

text \<open>
  \<^verbatim>\<open>model.fit(X, y, epochs, batch_size, callbacks=[exp_lr])\<close> is the framework's. The
  notebook's callback is written against this protocol: every epoch starts with
  \<^verbatim>\<open>on_epoch_begin\<close>, then each of the epoch's batches \<open>0, 1, \<dots>\<close> is trained and
  followed by \<^verbatim>\<open>on_batch_end(batch, logs)\<close>. An exception of the callback ends the loop.
\<close>

fun fit_batches ::
  "('w, 'o) train_step \<Rightarrow> nat \<Rightarrow> nat \<Rightarrow> nat \<Rightarrow> ExponentialLearningRate
   \<Rightarrow> ('w, 'o) keras_model \<Rightarrow> py_error + ExponentialLearningRate \<times> ('w, 'o) keras_model" where
  "fit_batches ts e b 0 cb m = Inr (cb, m)"
| "fit_batches ts e b (Suc n) cb m =
     (case ts m e b of (w, ot, l) \<Rightarrow>
        (case on_batch_end cb (m\<lparr>weights := w, other_state := ot\<rparr>) (int b) (Some l) of
           Inl err \<Rightarrow> Inl err
         | Inr (cb', m') \<Rightarrow> fit_batches ts e (Suc b) n cb' m'))"

fun fit_epochs ::
  "('w, 'o) train_step \<Rightarrow> nat \<Rightarrow> nat \<Rightarrow> nat \<Rightarrow> ExponentialLearningRate
   \<Rightarrow> ('w, 'o) keras_model \<Rightarrow> py_error + ExponentialLearningRate \<times> ('w, 'o) keras_model" where
  "fit_epochs ts steps e 0 cb m = Inr (cb, m)"
| "fit_epochs ts steps e (Suc n) cb m =
     (case fit_batches ts e 0 steps (on_epoch_begin cb (int e) None) m of
        Inl err \<Rightarrow> Inl err
      | Inr (cb', m') \<Rightarrow> fit_epochs ts steps (Suc e) n cb' m')"

definition fit ::
  "('w, 'o) train_step \<Rightarrow> nat \<Rightarrow> nat \<Rightarrow> nat \<Rightarrow> ExponentialLearningRate
   \<Rightarrow> ('w, 'o) keras_model \<Rightarrow> py_error + ExponentialLearningRate \<times> ('w, 'o) keras_model" where
  "fit ts len_X epochs batch_size cb m =
     (case epoch_steps len_X batch_size of
        Inl err \<Rightarrow> Inl err
      | Inr steps \<Rightarrow> fit_epochs ts steps 0 epochs cb m)"

subsection \<open>find_learning_rate\<close>

text \<open>
  The function up to and including the call of \<^verbatim>\<open>model.fit\<close>: the callback and the
  model as the training loop leaves them, before anything is restored. With rates of
  opposite sign and more than one iteration the factor is a complex number, and the
  model stops there (\<open>NotReal\<close>) while the program goes on.
\<close>

definition find_learning_rate_fit ::
  "('w, 'o) train_step \<Rightarrow> ('w, 'o) keras_model \<Rightarrow> nat \<Rightarrow> nat \<Rightarrow> nat \<Rightarrow> real \<Rightarrow> real
   \<Rightarrow> stop + ExponentialLearningRate \<times> ('w, 'o) keras_model" where
  "find_learning_rate_fit ts m len_X epochs batch_size min_rate max_rate =
     (case epoch_steps len_X batch_size of
        Inl err \<Rightarrow> Inl (Raises err)
      | Inr steps \<Rightarrow>
         (let iterations = steps * epochs in
          case py_truediv max_rate min_rate of
            Inl err \<Rightarrow> Inl (Raises err)
          | Inr ratio \<Rightarrow>
             (case py_truediv 1 (real iterations) of
                Inl err \<Rightarrow> Inl (Raises err)
              | Inr expo \<Rightarrow>
                 (case py_pow ratio expo of
                    Inl s \<Rightarrow> Inl s
                  | Inr f \<Rightarrow>
                     (case fit ts len_X epochs batch_size (ExponentialLearningRate_init f)
                             (m\<lparr>learning_rate := min_rate\<rparr>) of
                        Inl err \<Rightarrow> Inl (Raises err)
                      | Inr r \<Rightarrow> Inr r)))))"

text \<open>
  The whole function. The Python returns \<^verbatim>\<open>(rates, losses)\<close> and leaves its effect in
  the model object; the model returns both.
\<close>

definition find_learning_rate ::
  "('w, 'o) train_step \<Rightarrow> ('w, 'o) keras_model \<Rightarrow> nat \<Rightarrow> nat \<Rightarrow> nat \<Rightarrow> real \<Rightarrow> real
   \<Rightarrow> stop + (real list \<times> real list) \<times> ('w, 'o) keras_model" where
  "find_learning_rate ts m len_X epochs batch_size min_rate max_rate =
     (let init_weights = weights m;
          init_lr = learning_rate m
      in case find_learning_rate_fit ts m len_X epochs batch_size min_rate max_rate of
           Inl s \<Rightarrow> Inl s
         | Inr (exp_lr, m1) \<Rightarrow>
            (let m2 = m1\<lparr>learning_rate := init_lr\<rparr>;
                 m3 = m2\<lparr>weights := init_weights\<rparr>
             in Inr ((rates exp_lr, losses exp_lr), m3)))"

text \<open>
  A training step for concrete runs, reduced to what the notebook can observe: it keeps
  the weights, advances a step counter kept with the model (as the framework's optimizer
  does with its \<^verbatim>\<open>iterations\<close>) and reports \<open>b + 1\<close> as the epoch's mean loss after
  batch \<open>b\<close>, the running mean of the batch losses \<open>1, 3, 5, \<dots>\<close>.
\<close>

definition counting_step :: "(unit, nat) train_step" where
  "counting_step m e b = (weights m, Suc (other_state m), [''loss'' \<mapsto> real (Suc b)])"

subsection \<open>PowerScheduling\<close>

record PowerScheduling =
  initial_learning_rate :: real
  decay_rate :: real
  step_param :: real

text \<open>\<^verbatim>\<open>__call__\<close>: the step is an integer tensor, cast to a float.\<close>

definition PowerScheduling_call :: "'a PowerScheduling_scheme \<Rightarrow> int \<Rightarrow> real option" where
  "PowerScheduling_call self step =
     (case tf_div (of_int step) (step_param self) of
        None \<Rightarrow> None
      | Some q \<Rightarrow>
         (case tf_pow (1 + q) (decay_rate self) of
            None \<Rightarrow> None
          | Some d \<Rightarrow> tf_div (initial_learning_rate self) d))"

text \<open>The power schedule of the literature, \<open>\<eta>(t) = \<eta>\<^sub>0 / (1 + t/s)\<^sup>c\<close>.\<close>

definition power_schedule :: "real \<Rightarrow> real \<Rightarrow> real \<Rightarrow> real \<Rightarrow> real" where
  "power_schedule eta0 s c t = eta0 / (1 + t / s) powr c"

subsection \<open>OneCycleScheduler\<close>

record OneCycleScheduler =
  iterations :: int
  max_lr :: real
  start_lr :: real
  last_iterations :: int
  half_iteration :: int
  last_lr :: real
  iteration :: int

text \<open>The constructor; \<^verbatim>\<open>max_lr\<close> has the default \<^verbatim>\<open>1e-3\<close>, the optional arguments \<^verbatim>\<open>None\<close>.\<close>

definition OneCycleScheduler_init ::
  "int \<Rightarrow> real \<Rightarrow> real option \<Rightarrow> int option \<Rightarrow> real option \<Rightarrow> OneCycleScheduler" where
  "OneCycleScheduler_init its mx st li la =
     (let start = py_or st (mx / 10);
          lasti = py_or li (its div 10 + 1)
      in \<lparr>iterations = its, max_lr = mx, start_lr = start, last_iterations = lasti,
          half_iteration = (its - lasti) div 2, last_lr = py_or la (start / 1000),
          iteration = 0\<rparr>)"

definition interpolate ::
  "'a OneCycleScheduler_scheme \<Rightarrow> int \<Rightarrow> int \<Rightarrow> real \<Rightarrow> real \<Rightarrow> py_error + real" where
  "interpolate self iter1 iter2 lr1 lr2 =
     (if iter2 - iter1 = 0 then Inl ZeroDivisionError
      else Inr ((lr2 - lr1) * of_int (iteration self - iter1) / of_int (iter2 - iter1) + lr1))"

text \<open>The rate that \<^verbatim>\<open>on_batch_begin\<close> computes before it assigns it.\<close>

definition one_cycle_lr :: "'a OneCycleScheduler_scheme \<Rightarrow> py_error + real" where
  "one_cycle_lr self =
     (if iteration self < half_iteration self then
        interpolate self 0 (half_iteration self) (start_lr self) (max_lr self)
      else if iteration self < 2 * half_iteration self then
        interpolate self (half_iteration self) (2 * half_iteration self)
          (max_lr self) (start_lr self)
      else
        interpolate self (2 * half_iteration self) (iterations self)
          (start_lr self) (last_lr self))"

definition on_batch_begin ::
  "'a OneCycleScheduler_scheme \<Rightarrow> ('w, 'o) keras_model \<Rightarrow> int \<Rightarrow> logs option
   \<Rightarrow> py_error + 'a OneCycleScheduler_scheme \<times> ('w, 'o) keras_model" where
  "on_batch_begin self m batch lg =
     (case one_cycle_lr self of
        Inl err \<Rightarrow> Inl err
      | Inr lr \<Rightarrow> Inr (self\<lparr>iteration := iteration self + 1\<rparr>, m\<lparr>learning_rate := lr\<rparr>))"

subsection \<open>The framework's schedules that the notebook instantiates\<close>

text \<open>
  Modelled from the spec: \<^verbatim>\<open>tf.keras.optimizers.schedules.ExponentialDecay\<close> is a class of
  the framework and is not defined in the notebook. The spec lists the exponential
  schedule among the closed-form formulas of the literature; the notebook's text states
  it as \<open>\<eta>(t) = \<eta>\<^sub>0 \<cdot> \<gamma>\<^bsup>t/s\<^esup>\<close>, with \<open>\<eta>\<^sub>0\<close> the \<^verbatim>\<open>initial_learning_rate\<close>, \<open>\<gamma>\<close> the
  \<^verbatim>\<open>decay_rate\<close> and \<open>s\<close> the \<^verbatim>\<open>decay_steps\<close>. The arithmetic is the tensors'.
\<close>

definition ExponentialDecay :: "real \<Rightarrow> int \<Rightarrow> real \<Rightarrow> int \<Rightarrow> real option" where
  "ExponentialDecay initial_lr decay_steps gamma step =
     (case tf_div (of_int step) (of_int decay_steps) of
        None \<Rightarrow> None
      | Some p \<Rightarrow>
         (case tf_pow gamma p of
            None \<Rightarrow> None
          | Some d \<Rightarrow> Some (initial_lr * d)))"

text \<open>
  The notebook's cell: \<^verbatim>\<open>n_epochs = 10\<close>, \<^verbatim>\<open>batch_size = 32\<close>,
  \<^verbatim>\<open>n_steps = n_epochs * math.ceil(len(X_train) / batch_size)\<close>, \<^verbatim>\<open>lr0 = .1\<close> and the
  schedule \<^verbatim>\<open>ExponentialDecay(lr0, decay_steps=n_steps, decay_rate=.95)\<close>.
\<close>

definition n_steps :: "nat \<Rightarrow> nat" where
  "n_steps len_X_train = 10 * ceil_div len_X_train 32"

definition lr_schedule_exponential :: "nat \<Rightarrow> int \<Rightarrow> real option" where
  "lr_schedule_exponential len_X_train step =
     ExponentialDecay (1 / 10) (int (n_steps len_X_train)) (95 / 100) step"

text \<open>
  Modelled from the spec: \<^verbatim>\<open>tf.keras.optimizers.schedules.PiecewiseConstantDecay\<close> is a
  class of the framework and is not defined in the notebook. The spec lists the
  piecewise-constant schedule; the notebook's text describes it as a constant rate for a
  set number of steps, then the next constant rate, and so on. With boundaries in
  ascending order the value of a step is the first \<^verbatim>\<open>values[i]\<close> with
  \<^verbatim>\<open>step <= boundaries[i]\<close>, and the last value beyond the last boundary; the class refuses
  lists whose lengths do not fit.
\<close>

fun PiecewiseConstantDecay :: "int list \<Rightarrow> real list \<Rightarrow> int \<Rightarrow> py_error + real" where
  "PiecewiseConstantDecay [] [v] step = Inr v"
| "PiecewiseConstantDecay (b # bs) (v # vs) step =
     (if length vs \<noteq> Suc (length bs) then Inl ValueError
      else if step \<le> b then Inr v
      else PiecewiseConstantDecay bs vs step)"
| "PiecewiseConstantDecay bs vs step = Inl ValueError"

text \<open>
  The notebook's cell: \<^verbatim>\<open>epoch_steps = math.ceil(len(X_train) / batch_size)\<close>,
  \<^verbatim>\<open>b1 = epoch_steps * 3\<close>, \<^verbatim>\<open>b2 = b1 + epoch_steps * 3\<close> and the schedule
  \<^verbatim>\<open>PiecewiseConstantDecay([b1, b2], [.1, 0.05, 0.005])\<close>.
\<close>

definition b1 :: "nat \<Rightarrow> nat \<Rightarrow> py_error + int" where
  "b1 len_X_train batch_size =
     (case epoch_steps len_X_train batch_size of
        Inl err \<Rightarrow> Inl err
      | Inr k \<Rightarrow> Inr (int k * 3))"

definition b2 :: "nat \<Rightarrow> nat \<Rightarrow> py_error + int" where
  "b2 len_X_train batch_size =
     (case epoch_steps len_X_train batch_size of
        Inl err \<Rightarrow> Inl err
      | Inr k \<Rightarrow>
         (case b1 len_X_train batch_size of
            Inl err \<Rightarrow> Inl err
          | Inr x \<Rightarrow> Inr (x + int k * 3)))"

definition lr_schedule_piecewise :: "nat \<Rightarrow> nat \<Rightarrow> int \<Rightarrow> py_error + real" where
  "lr_schedule_piecewise len_X_train batch_size step =
     (case b1 len_X_train batch_size of
        Inl err \<Rightarrow> Inl err
      | Inr x1 \<Rightarrow>
         (case b2 len_X_train batch_size of
            Inl err \<Rightarrow> Inl err
          | Inr x2 \<Rightarrow> PiecewiseConstantDecay [x1, x2] [1 / 10, 5 / 100, 5 / 1000] step))"

text \<open>
  Modelled from the spec: the framework calls a schedule with the optimizer's step
  counter, which is not part of the notebook. The counter starts at 0 and moves by one
  per batch, so batch \<open>j\<close> of epoch \<open>e\<close> (both counted from 0) of a run with \<open>steps\<close>
  batches per epoch is trained at step \<open>e * steps + j\<close>.
\<close>

definition optimizer_step :: "nat \<Rightarrow> nat \<Rightarrow> nat \<Rightarrow> int" where
  "optimizer_step steps e j = int (e * steps + j)"

section \<open>Facts about the training loop\<close>

lemma on_batch_end_Inr:
  assumes "on_batch_end cb m batch lg = Inr (cb', m')"
  shows "factor cb' = factor cb"
    and "rates cb' = rates cb @ [learning_rate m]"
    and "\<exists>x. losses cb' = losses cb @ [x]"
    and "learning_rate m' = learning_rate m * factor cb"
    and "weights m' = weights m"
    and "other_state m' = other_state m"
  using assms
  by (auto simp: on_batch_end_def Let_def split: option.splits)

lemma on_batch_end_loss:
  assumes "l ''loss'' = Some v" and "sum_of_epoch_losses cb = Some s"
  shows "\<exists>cb' m'. on_batch_end cb m (int b) (Some l) = Inr (cb', m')
          \<and> losses cb' = losses cb @ [v * real (Suc b) - s]
          \<and> sum_of_epoch_losses cb' = Some (v * real (Suc b))"
  using assms by (simp add: on_batch_end_def Let_def add.commute)

lemma map_upt_split:
  "map g [0..<a + b] = map g [0..<a] @ map (\<lambda>k. g (a + k)) [0..<b]"
proof -
  have "[0..<a + b] = [0..<a] @ map (\<lambda>k. a + k) [0..<b]"
    by (induction b) simp_all
  then show ?thesis by (simp add: comp_def)
qed

text \<open>
  One epoch of batches: the callback keeps its factor, records the rate of every batch
  and multiplies it by the factor, and appends one loss per batch.
\<close>

lemma fit_batches_rates:
  "fit_batches ts e b n cb m = Inr (cb', m') \<Longrightarrow>
     factor cb' = factor cb
   \<and> rates cb' = rates cb @ map (\<lambda>k. learning_rate m * factor cb ^ k) [0..<n]
   \<and> learning_rate m' = learning_rate m * factor cb ^ n
   \<and> (\<exists>xs. losses cb' = losses cb @ xs \<and> length xs = n)"
proof (induction n arbitrary: b cb m)
  case 0
  then show ?case by simp
next
  case (Suc n)
  obtain w ot l where ts: "ts m e b = (w, ot, l)" by (cases "ts m e b") auto
  from Suc.prems ts obtain cb1 m1 where
    step: "on_batch_end cb (m\<lparr>weights := w, other_state := ot\<rparr>) (int b) (Some l) = Inr (cb1, m1)"
    and rest: "fit_batches ts e (Suc b) n cb1 m1 = Inr (cb', m')"
    by (auto split: sum.splits)
  note s = on_batch_end_Inr [OF step]
  from s(3) obtain x where x: "losses cb1 = losses cb @ [x]" by blast
  from Suc.IH [OF rest] obtain xs where
    ih: "factor cb' = factor cb1"
        "rates cb' = rates cb1 @ map (\<lambda>k. learning_rate m1 * factor cb1 ^ k) [0..<n]"
        "learning_rate m' = learning_rate m1 * factor cb1 ^ n"
        "losses cb' = losses cb1 @ xs" "length xs = n"
    by blast
  have "map (\<lambda>k. learning_rate m * factor cb ^ k) [0..<Suc n] =
        learning_rate m # map (\<lambda>k. learning_rate m * factor cb * factor cb ^ k) [0..<n]"
    by (simp add: map_upt_Suc del: upt_Suc)
  with ih s x show ?case
    by (simp add: mult.assoc del: upt_Suc)
qed

lemma fit_epochs_rates:
  "fit_epochs ts steps e n cb m = Inr (cb', m') \<Longrightarrow>
     factor cb' = factor cb
   \<and> rates cb' = rates cb @ map (\<lambda>k. learning_rate m * factor cb ^ k) [0..<n * steps]
   \<and> learning_rate m' = learning_rate m * factor cb ^ (n * steps)
   \<and> (\<exists>xs. losses cb' = losses cb @ xs \<and> length xs = n * steps)"
proof (induction n arbitrary: e cb m)
  case 0
  then show ?case by simp
next
  case (Suc n)
  from Suc.prems obtain cb1 m1 where
    first: "fit_batches ts e 0 steps (on_epoch_begin cb (int e) None) m = Inr (cb1, m1)"
    and rest: "fit_epochs ts steps (Suc e) n cb1 m1 = Inr (cb', m')"
    by (auto split: sum.splits)
  from fit_batches_rates [OF first] obtain xs where
    f: "factor cb1 = factor cb"
       "rates cb1 = rates cb @ map (\<lambda>k. learning_rate m * factor cb ^ k) [0..<steps]"
       "learning_rate m1 = learning_rate m * factor cb ^ steps"
       "losses cb1 = losses cb @ xs" "length xs = steps"
    by (auto simp: on_epoch_begin_def)
  from Suc.IH [OF rest] obtain ys where
    ih: "factor cb' = factor cb1"
        "rates cb' = rates cb1 @ map (\<lambda>k. learning_rate m1 * factor cb1 ^ k) [0..<n * steps]"
        "learning_rate m' = learning_rate m1 * factor cb1 ^ (n * steps)"
        "losses cb' = losses cb1 @ ys" "length ys = n * steps"
    by blast
  have "map (\<lambda>k. learning_rate m * factor cb ^ k) [0..<steps + n * steps] =
        map (\<lambda>k. learning_rate m * factor cb ^ k) [0..<steps]
        @ map (\<lambda>k. learning_rate m * factor cb ^ (steps + k)) [0..<n * steps]"
    by (rule map_upt_split)
  with f ih show ?case
    by (simp add: power_add mult.assoc)
qed

text \<open>The loop raises nothing as long as every batch's logs carry a loss.\<close>

lemma fit_batches_succeeds:
  assumes logs: "\<And>m e b. \<exists>v. snd (snd (ts m e b)) ''loss'' = Some v"
  shows "sum_of_epoch_losses cb = Some s \<Longrightarrow>
     \<exists>cb' m' s'. fit_batches ts e b n cb m = Inr (cb', m') \<and> sum_of_epoch_losses cb' = Some s'"
proof (induction n arbitrary: b cb m s)
  case 0
  then show ?case by simp
next
  case (Suc n)
  obtain w ot l where ts: "ts m e b = (w, ot, l)" by (cases "ts m e b") auto
  with logs [of m e b] obtain v where l: "l ''loss'' = Some v" by auto
  from on_batch_end_loss [of l v cb s "m\<lparr>weights := w, other_state := ot\<rparr>" b] l Suc.prems
  obtain cb1 m1 where
    step: "on_batch_end cb (m\<lparr>weights := w, other_state := ot\<rparr>) (int b) (Some l) = Inr (cb1, m1)"
    and s1: "sum_of_epoch_losses cb1 = Some (v * real (Suc b))"
    by blast
  from Suc.IH [OF s1, of "Suc b" m1] ts step show ?case by simp
qed

lemma fit_epochs_succeeds:
  assumes logs: "\<And>m e b. \<exists>v. snd (snd (ts m e b)) ''loss'' = Some v"
  shows "\<exists>cb' m'. fit_epochs ts steps e n cb m = Inr (cb', m')"
proof (induction n arbitrary: e cb m)
  case 0
  then show ?case by simp
next
  case (Suc n)
  have "sum_of_epoch_losses (on_epoch_begin cb (int e) None) = Some 0"
    by (simp add: on_epoch_begin_def)
  from fit_batches_succeeds [of ts "on_epoch_begin cb (int e) None" 0 e 0 steps m] logs this
  obtain cb1 m1 where
    first: "fit_batches ts e 0 steps (on_epoch_begin cb (int e) None) m = Inr (cb1, m1)"
    by blast
  from Suc.IH [of "Suc e" cb1 m1] first show ?case by simp
qed

text \<open>The losses that one epoch and a whole run append.\<close>

lemma fit_batches_losses:
  assumes logs: "\<And>m e b. snd (snd (ts m e b)) ''loss'' = Some (mean e b)"
  shows "sum_of_epoch_losses cb = Some s \<Longrightarrow>
     \<exists>cb' m'. fit_batches ts e b n cb m = Inr (cb', m')
       \<and> losses cb' = losses cb @
           map (\<lambda>k. mean e k * real (Suc k) - (if k = b then s else mean e (k - 1) * real k))
             [b..<b + n]"
proof (induction n arbitrary: b cb m s)
  case 0
  then show ?case by simp
next
  case (Suc n)
  obtain w ot l where ts: "ts m e b = (w, ot, l)" by (cases "ts m e b") auto
  with logs [of m e b] have l: "l ''loss'' = Some (mean e b)" by simp
  from on_batch_end_loss [of l "mean e b" cb s "m\<lparr>weights := w, other_state := ot\<rparr>" b] l Suc.prems
  obtain cb1 m1 where
    step: "on_batch_end cb (m\<lparr>weights := w, other_state := ot\<rparr>) (int b) (Some l) = Inr (cb1, m1)"
    and l1: "losses cb1 = losses cb @ [mean e b * real (Suc b) - s]"
    and s1: "sum_of_epoch_losses cb1 = Some (mean e b * real (Suc b))"
    by blast
  from Suc.IH [OF s1, of "Suc b" m1] obtain cb' m' where
    rest: "fit_batches ts e (Suc b) n cb1 m1 = Inr (cb', m')"
    and l2: "losses cb' = losses cb1 @
       map (\<lambda>k. mean e k * real (Suc k) -
                 (if k = Suc b then mean e b * real (Suc b) else mean e (k - 1) * real k))
         [Suc b..<Suc b + n]"
    by blast
  have same: "map (\<lambda>k. mean e k * real (Suc k) -
                 (if k = Suc b then mean e b * real (Suc b) else mean e (k - 1) * real k))
         [Suc b..<Suc b + n]
      = map (\<lambda>k. mean e k * real (Suc k) - (if k = b then s else mean e (k - 1) * real k))
         [Suc b..<Suc b + n]"
    by (rule map_cong) auto
  have "[b..<b + Suc n] = b # [Suc b..<Suc b + n]"
    by (simp add: upt_conv_Cons)
  with ts step rest l1 l2 same show ?case
    by (simp del: upt_Suc)
qed

lemma fit_epochs_losses:
  assumes logs: "\<And>m e b. snd (snd (ts m e b)) ''loss'' = Some (mean e b)"
  shows "\<exists>cb' m'. fit_epochs ts steps e0 n cb m = Inr (cb', m')
       \<and> (\<forall>e b. e < n \<and> b < steps \<longrightarrow>
            losses cb' ! (length (losses cb) + e * steps + b) =
              mean (e0 + e) b * real (Suc b) - (if b = 0 then 0 else mean (e0 + e) (b - 1) * real b))"
proof (induction n arbitrary: e0 cb m)
  case 0
  then show ?case by simp
next
  case (Suc n)
  let ?F = "\<lambda>e k. mean e k * real (Suc k) - (if k = 0 then 0 else mean e (k - 1) * real k)"
  have "sum_of_epoch_losses (on_epoch_begin cb (int e0) None) = Some 0"
    by (simp add: on_epoch_begin_def)
  from fit_batches_losses [of ts mean "on_epoch_begin cb (int e0) None" 0 e0 0 steps m] logs this
  obtain cb1 m1 where
    first: "fit_batches ts e0 0 steps (on_epoch_begin cb (int e0) None) m = Inr (cb1, m1)"
    and l1: "losses cb1 = losses cb @ map (?F e0) [0..<steps]"
    by (auto simp: on_epoch_begin_def)
  from Suc.IH [of "Suc e0" cb1 m1] obtain cb' m' where
    rest: "fit_epochs ts steps (Suc e0) n cb1 m1 = Inr (cb', m')"
    and ih: "\<And>e b. e < n \<Longrightarrow> b < steps \<Longrightarrow>
            losses cb' ! (length (losses cb1) + e * steps + b) = ?F (Suc e0 + e) b"
    by blast
  from fit_epochs_rates [OF rest] obtain ys where ys: "losses cb' = losses cb1 @ ys"
    by blast
  have "losses cb' ! (length (losses cb) + e * steps + b) = ?F (e0 + e) b"
    if "e < Suc n" and "b < steps" for e b
  proof (cases e)
    case 0
    with that l1 ys show ?thesis
      by (simp add: nth_append)
  next
    case (Suc e')
    with that have "e' < n" by simp
    from ih [OF this that(2)] l1 Suc show ?thesis
      by (simp add: add.assoc add.commute add.left_commute)
  qed
  with first rest show ?case by simp
qed

lemma root_factor_power:
  assumes "0 < r" and "0 < n"
  shows "(r powr (1 / real n)) ^ n = r"
proof -
  have "0 < r powr (1 / real n)" using assms by simp
  then have "(r powr (1 / real n)) ^ n = (r powr (1 / real n)) powr real n"
    by (simp add: powr_realpow)
  also have "\<dots> = r powr 1" using assms by (simp add: powr_powr)
  also have "\<dots> = r" using assms by simp
  finally show ?thesis .
qed

lemma ceil_div_pos: "0 < len_X \<Longrightarrow> 0 < batch_size \<Longrightarrow> 0 < ceil_div len_X batch_size"
proof -
  assume "0 < len_X" "0 < batch_size"
  then have "0 < real len_X / real batch_size" by simp
  then have "0 < \<lceil>real len_X / real batch_size\<rceil>" by simp
  then show ?thesis by (simp add: ceil_div_def)
qed

text \<open>Two concrete runs with \<^const>\<open>counting_step\<close>.\<close>

lemma counting_step_logs: "snd (snd (counting_step m e b)) ''loss'' = Some (real (Suc b))"
  by (simp add: counting_step_def)

lemma fit_counting_run:
  "fit counting_step 2 2 1 (ExponentialLearningRate_init 2)
       \<lparr>weights = (), learning_rate = 1 / 100, other_state = 0\<rparr>
     = Inr (\<lparr>factor = 2, rates = [1 / 100, 1 / 50, 1 / 25, 2 / 25], losses = [1, 3, 1, 3],
              sum_of_epoch_losses = Some 4\<rparr>,
            \<lparr>weights = (), learning_rate = 4 / 25, other_state = 4\<rparr>)"
  by (simp add: fit_def epoch_steps_def ceil_div_def eval_nat_numeral on_epoch_begin_def
      on_batch_end_def counting_step_def ExponentialLearningRate_init_def Let_def)

lemma find_learning_rate_counting_run:
  "find_learning_rate counting_step \<lparr>weights = (), learning_rate = 1 / 1000, other_state = 0\<rparr>
       1 1 1 (1 / 10000) 1
     = Inr (([1 / 10000], [1]), \<lparr>weights = (), learning_rate = 1 / 1000, other_state = 1\<rparr>)"
  by (simp add: find_learning_rate_def find_learning_rate_fit_def fit_def epoch_steps_def
      ceil_div_def py_truediv_def py_pow_def on_epoch_begin_def on_batch_end_def
      counting_step_def ExponentialLearningRate_init_def Let_def)

section \<open>The power schedule\<close>

text \<open>
  Claim C1. For every non-negative step \<open>t\<close>, \<^verbatim>\<open>PowerScheduling.__call__(t)\<close> returns
  \<^verbatim>\<open>initial_learning_rate / (1 + t/step_param) ** decay_rate\<close>, the power schedule
  \<open>\<eta>(t) = \<eta>\<^sub>0 / (1 + t/s)\<^sup>c\<close>. The formula is one of real numbers where its base
  \<open>1 + t/s\<close> is positive, which a positive step parameter guarantees.
\<close>

theorem power_scheduling_formula:
  fixes self :: "'a PowerScheduling_scheme"
  assumes "0 \<le> t" and "0 < step_param self"
  shows "PowerScheduling_call self t =
           Some (initial_learning_rate self / (1 + of_int t / step_param self) powr decay_rate self)
       \<and> PowerScheduling_call self t =
           Some (power_schedule (initial_learning_rate self) (step_param self) (decay_rate self) (of_int t))"
proof -
  have "0 \<le> real_of_int t / step_param self" using assms by simp
  then have pos: "0 < 1 + real_of_int t / step_param self" by linarith
  then have nz: "(1 + real_of_int t / step_param self) powr decay_rate self \<noteq> 0" by simp
  show ?thesis using assms pos nz
    by (simp add: PowerScheduling_call_def tf_div_def tf_pow_def power_schedule_def)
qed

theorem power_scheduling_formula_witness:
  "(0::int) \<le> 1000 \<and> (0::real) < 1000 \<and>
   PowerScheduling_call \<lparr>initial_learning_rate = 1/10, decay_rate = 1, step_param = 1000\<rparr> 1000 = Some (1/20)"
  using power_scheduling_formula [of 1000 "\<lparr>initial_learning_rate = 1/10, decay_rate = 1, step_param = 1000\<rparr>"]
  by simp

section \<open>The learning-rate range test\<close>

text \<open>
  Claim C2. Per-batch loss bookkeeping: when every epoch starts with \<^verbatim>\<open>on_epoch_begin\<close>
  and \<^verbatim>\<open>on_batch_end\<close> is called for the batches \<open>b = 0, 1, \<dots>\<close> with \<^verbatim>\<open>logs["loss"]\<close>
  the epoch's mean loss \<open>m\<^sub>b\<close> so far, the loss appended for batch \<open>b\<close> is
  \<open>m\<^sub>b (b + 1) - m\<^bsub>b-1\<^esub> b\<close> (nothing is subtracted for \<open>b = 0\<close>); and when \<open>m\<close> is the
  running mean of batch losses \<open>l\<close>, that is the loss \<open>l b\<close> of the batch alone.
\<close>

theorem per_batch_loss_bookkeeping:
  assumes logs: "\<forall>m e b. snd (snd (ts m e b)) ''loss'' = Some (mean e b)"
    and bs: "0 < batch_size"
  shows "\<exists>cb' m'. fit ts len_X epochs batch_size cb m = Inr (cb', m')
     \<and> (\<forall>e b. e < epochs \<and> b < ceil_div len_X batch_size \<longrightarrow>
          losses cb' ! (length (losses cb) + e * ceil_div len_X batch_size + b)
            = mean e b * real (b + 1) - (if b = 0 then 0 else mean e (b - 1) * real b)
        \<and> (\<forall>l. (\<forall>k\<le>b. mean e k = (\<Sum>i\<le>k. l i) / real (k + 1)) \<longrightarrow>
              losses cb' ! (length (losses cb) + e * ceil_div len_X batch_size + b) = l b))"
proof -
  let ?steps = "ceil_div len_X batch_size"
  let ?F = "\<lambda>e b. mean e b * real (Suc b) - (if b = 0 then 0 else mean e (b - 1) * real b)"
  from fit_epochs_losses [of ts mean ?steps 0 epochs cb m] logs
  obtain cb' m' where
    run: "fit_epochs ts ?steps 0 epochs cb m = Inr (cb', m')"
    and entry: "\<And>e b. e < epochs \<Longrightarrow> b < ?steps \<Longrightarrow>
                 losses cb' ! (length (losses cb) + e * ?steps + b) = ?F e b"
    by auto
  have whole: "fit ts len_X epochs batch_size cb m = Inr (cb', m')"
    using bs run by (simp add: fit_def epoch_steps_def)
  have alone: "?F e b = l b" if mean: "\<forall>k\<le>b. mean e k = (\<Sum>i\<le>k. l i) / real (k + 1)" for e b l
  proof (cases b)
    case 0
    with mean show ?thesis by simp
  next
    case (Suc j)
    from mean Suc have "mean e (Suc j) = (\<Sum>i\<le>Suc j. l i) / real (Suc j + 1)"
      and "mean e j = (\<Sum>i\<le>j. l i) / real (j + 1)"
      by simp_all
    with Suc show ?thesis by simp
  qed
  from whole entry alone show ?thesis by auto
qed

theorem per_batch_loss_bookkeeping_witness:
  "(\<forall>m e b. snd (snd (counting_step m e b)) ''loss'' = Some (real (Suc b)))
   \<and> (0::nat) < 1
   \<and> (\<exists>cb' m'. fit counting_step 2 2 1 (ExponentialLearningRate_init 2)
                  \<lparr>weights = (), learning_rate = 1 / 100, other_state = 0\<rparr> = Inr (cb', m')
         \<and> losses cb' ! 3 = 2 * 2 - 1 * 1
         \<and> losses cb' = [1, 3, 1, 3])"
proof -
  have logs: "\<forall>m e b. snd (snd (counting_step m e b)) ''loss'' = Some (real (Suc b))"
    by (simp add: counting_step_logs)
  have steps: "ceil_div 2 1 = 2" by (simp add: ceil_div_def)
  from per_batch_loss_bookkeeping [of counting_step "\<lambda>e b. real (Suc b)" 1 2 2
      "ExponentialLearningRate_init 2" "\<lparr>weights = (), learning_rate = 1 / 100, other_state = 0\<rparr>"]
    logs
  obtain cb' m' where
    run: "fit counting_step 2 2 1 (ExponentialLearningRate_init 2)
            \<lparr>weights = (), learning_rate = 1 / 100, other_state = 0\<rparr> = Inr (cb', m')"
    and entry: "\<forall>e b. e < 2 \<and> b < ceil_div 2 1 \<longrightarrow>
          losses cb' ! (length (losses (ExponentialLearningRate_init 2)) + e * ceil_div 2 1 + b)
            = real (Suc b) * real (b + 1) - (if b = 0 then 0 else real (Suc (b - 1)) * real b)"
    by auto
  from entry [rule_format, of 1 1] steps have "losses cb' ! 3 = 2 * 2 - 1 * 1"
    by (simp add: ExponentialLearningRate_init_def)
  moreover from run fit_counting_run have "losses cb' = [1, 3, 1, 3]"
    by simp
  ultimately show ?thesis using logs run by simp
qed

text \<open>
  Claim C3. The range test grows the rate geometrically: \<^verbatim>\<open>find_learning_rate\<close> sets the
  rate to \<^verbatim>\<open>min_rate\<close>, each of the
  \<^verbatim>\<open>iterations = ceil(len(X) / batch_size) * epochs\<close> batches multiplies it by
  \<^verbatim>\<open>(max_rate / min_rate) ** (1 / iterations)\<close>, the rate recorded at batch \<open>k\<close> is
  \<^verbatim>\<open>min_rate * factor ** k\<close>, and after the last batch the rate is \<^verbatim>\<open>max_rate\<close>. The
  statement is about the state that \<^verbatim>\<open>model.fit\<close> leaves, before the rate is restored.
\<close>

theorem range_test_geometric:
  assumes "0 < min_rate" and "0 < max_rate"
    and "0 < len_X" and "0 < batch_size" and "0 < epochs"
    and logs: "\<forall>m e b. \<exists>v. snd (snd (ts m e b)) ''loss'' = Some v"
  shows "\<exists>cb' m'.
      find_learning_rate_fit ts m len_X epochs batch_size min_rate max_rate = Inr (cb', m')
    \<and> factor cb' = (max_rate / min_rate) powr (1 / real (ceil_div len_X batch_size * epochs))
    \<and> rates cb' = map (\<lambda>k. min_rate * factor cb' ^ k) [0..<ceil_div len_X batch_size * epochs]
    \<and> learning_rate m' = max_rate
    \<and> find_learning_rate ts m len_X epochs batch_size min_rate max_rate
        = Inr ((rates cb', losses cb'),
               m'\<lparr>learning_rate := learning_rate m, weights := weights m\<rparr>)"
proof -
  let ?steps = "ceil_div len_X batch_size"
  let ?n = "?steps * epochs"
  let ?f = "(max_rate / min_rate) powr (1 / real ?n)"
  have "0 < real len_X / real batch_size" using assms by simp
  then have "0 < \<lceil>real len_X / real batch_size\<rceil>" by simp
  then have steps: "0 < ?steps" by (simp add: ceil_div_def)
  with assms have n: "0 < ?n" by simp
  have r: "0 < max_rate / min_rate" using assms by simp
  from fit_epochs_succeeds [of ts ?steps 0 epochs "ExponentialLearningRate_init ?f"
      "m\<lparr>learning_rate := min_rate\<rparr>"] logs
  obtain cb' m' where
    run: "fit_epochs ts ?steps 0 epochs (ExponentialLearningRate_init ?f)
            (m\<lparr>learning_rate := min_rate\<rparr>) = Inr (cb', m')"
    by blast
  have whole: "find_learning_rate_fit ts m len_X epochs batch_size min_rate max_rate = Inr (cb', m')"
    using assms n r run
    by (simp add: find_learning_rate_fit_def epoch_steps_def py_truediv_def py_pow_def fit_def
        Let_def)
  from fit_epochs_rates [OF run]
  have f: "factor cb' = ?f"
    and rs: "rates cb' = map (\<lambda>k. min_rate * ?f ^ k) [0..<epochs * ?steps]"
    and lr: "learning_rate m' = min_rate * ?f ^ (epochs * ?steps)"
    by (simp_all add: ExponentialLearningRate_init_def)
  have "?f ^ ?n = max_rate / min_rate"
    using r n by (rule root_factor_power)
  with lr assms have final: "learning_rate m' = max_rate"
    by (simp add: mult.commute)
  from whole have returned:
    "find_learning_rate ts m len_X epochs batch_size min_rate max_rate
       = Inr ((rates cb', losses cb'),
              m'\<lparr>learning_rate := learning_rate m, weights := weights m\<rparr>)"
    by (simp add: find_learning_rate_def Let_def)
  from whole f rs final returned show ?thesis
    by (simp add: mult.commute)
qed

theorem range_test_geometric_witness:
  "(0::real) < 1 / 100 \<and> (0::real) < 1 \<and> (0::nat) < 2 \<and> (0::nat) < 1
   \<and> (\<forall>m e b. \<exists>v. snd (snd (counting_step m e b)) ''loss'' = Some v)
   \<and> (\<exists>cb' m'. find_learning_rate_fit counting_step
                  \<lparr>weights = (), learning_rate = 1 / 1000, other_state = 0\<rparr> 2 1 1 (1 / 100) 1
                = Inr (cb', m')
         \<and> factor cb' = 100 powr (1 / 2)
         \<and> rates cb' = [1 / 100, 1 / 100 * factor cb']
         \<and> learning_rate m' = 1
         \<and> find_learning_rate counting_step
               \<lparr>weights = (), learning_rate = 1 / 1000, other_state = 0\<rparr> 2 1 1 (1 / 100) 1
             = Inr ((rates cb', losses cb'),
                    m'\<lparr>learning_rate := 1 / 1000, weights := ()\<rparr>))"
proof -
  have logs: "\<forall>m e b. \<exists>v. snd (snd (counting_step m e b)) ''loss'' = Some v"
    by (simp add: counting_step_logs)
  have steps: "ceil_div 2 1 = 2" by (simp add: ceil_div_def)
  from range_test_geometric [of "1 / 100" 1 2 1 1 counting_step
      "\<lparr>weights = (), learning_rate = 1 / 1000, other_state = 0\<rparr>"] logs steps
  show ?thesis by (simp add: eval_nat_numeral)
qed

text \<open>
  Claim C8, as far as it holds. When \<^verbatim>\<open>find_learning_rate\<close> returns, the model's weights
  and the optimizer's learning rate are those at entry, and the returned lists are the
  callback's. Whatever else \<^verbatim>\<open>model.fit\<close> changed in the model stays changed: the
  function saves and restores the weights and the rate only.
\<close>

theorem find_learning_rate_restores_weights_and_rate:
  assumes ret: "find_learning_rate ts m len_X epochs batch_size min_rate max_rate = Inr (r, m')"
  shows "weights m' = weights m \<and> learning_rate m' = learning_rate m
     \<and> (\<exists>exp_lr m1.
           find_learning_rate_fit ts m len_X epochs batch_size min_rate max_rate = Inr (exp_lr, m1)
         \<and> r = (rates exp_lr, losses exp_lr) \<and> other_state m' = other_state m1)"
  using ret
  by (auto simp: find_learning_rate_def Let_def split: sum.splits)

theorem find_learning_rate_restores_weights_and_rate_witness:
  "find_learning_rate counting_step \<lparr>weights = (), learning_rate = 1 / 1000, other_state = 0\<rparr>
       1 1 1 (1 / 10000) 1
     = Inr (([1 / 10000], [1]), \<lparr>weights = (), learning_rate = 1 / 1000, other_state = 1\<rparr>)
   \<and> weights \<lparr>weights = (), learning_rate = 1 / 1000, other_state = 1::nat\<rparr>
       = weights \<lparr>weights = (), learning_rate = 1 / 1000, other_state = 0::nat\<rparr>
   \<and> learning_rate \<lparr>weights = (), learning_rate = 1 / 1000, other_state = 1::nat\<rparr>
       = learning_rate \<lparr>weights = (), learning_rate = 1 / 1000, other_state = 0::nat\<rparr>"
  using find_learning_rate_restores_weights_and_rate [OF find_learning_rate_counting_run]
    find_learning_rate_counting_run
  by simp

text \<open>
  Claim C8 as stated says that only the returned lists carry information out of the
  probe. A training step that counts its steps in the model, as the framework's optimizer
  does, leaves its count behind: the model after the probe is not the model before it.
\<close>

theorem find_learning_rate_other_state_counterexample:
  "find_learning_rate counting_step \<lparr>weights = (), learning_rate = 1 / 1000, other_state = 0\<rparr>
       1 1 1 (1 / 10000) 1
     = Inr (([1 / 10000], [1]), \<lparr>weights = (), learning_rate = 1 / 1000, other_state = 1\<rparr>)
   \<and> \<lparr>weights = (), learning_rate = 1 / 1000, other_state = 1::nat\<rparr>
       \<noteq> \<lparr>weights = (), learning_rate = 1 / 1000, other_state = 0::nat\<rparr>"
  by (simp add: find_learning_rate_def find_learning_rate_fit_def fit_def epoch_steps_def
      ceil_div_def py_truediv_def py_pow_def on_epoch_begin_def on_batch_end_def
      counting_step_def ExponentialLearningRate_init_def Let_def)

text \<open>
  Claim C9. \<^verbatim>\<open>len(rates) == len(losses)\<close> is an invariant of the callback: both lists
  start empty, \<^verbatim>\<open>on_epoch_begin\<close> leaves them alone, every \<^verbatim>\<open>on_batch_end\<close> appends
  exactly one element to each; so the two lists that \<^verbatim>\<open>find_learning_rate\<close> returns
  have the same length, one entry per batch processed.
\<close>

theorem rates_losses_same_length:
  fixes m m' :: "('w, 'o) keras_model" and m0 m1 :: "('v, 'p) keras_model"
  shows "length (rates (ExponentialLearningRate_init f)) = 0
     \<and> length (losses (ExponentialLearningRate_init f)) = 0
     \<and> length (rates (on_epoch_begin cb epoch lg0)) = length (rates cb)
     \<and> length (losses (on_epoch_begin cb epoch lg0)) = length (losses cb)
     \<and> (on_batch_end cb m batch lg = Inr (cb', m') \<longrightarrow>
          length (rates cb') = Suc (length (rates cb))
          \<and> length (losses cb') = Suc (length (losses cb)))
     \<and> (find_learning_rate ts m0 len_X epochs batch_size min_rate max_rate = Inr ((rs, ls), m1) \<longrightarrow>
          length rs = length ls \<and> length rs = ceil_div len_X batch_size * epochs)"
proof -
  have init: "length (rates (ExponentialLearningRate_init f)) = 0
     \<and> length (losses (ExponentialLearningRate_init f)) = 0"
    by (simp add: ExponentialLearningRate_init_def)
  have epoch: "length (rates (on_epoch_begin cb epoch lg0)) = length (rates cb)
     \<and> length (losses (on_epoch_begin cb epoch lg0)) = length (losses cb)"
    by (simp add: on_epoch_begin_def)
  have batch: "length (rates cb') = Suc (length (rates cb))
          \<and> length (losses cb') = Suc (length (losses cb))"
    if "on_batch_end cb m batch lg = Inr (cb', m')"
    using on_batch_end_Inr(2,3) [OF that] by auto
  have probe: "length rs = length ls \<and> length rs = ceil_div len_X batch_size * epochs"
    if ret: "find_learning_rate ts m0 len_X epochs batch_size min_rate max_rate = Inr ((rs, ls), m1)"
  proof -
    from ret obtain cb2 m2 where
      fitted: "find_learning_rate_fit ts m0 len_X epochs batch_size min_rate max_rate = Inr (cb2, m2)"
      and out: "rs = rates cb2" "ls = losses cb2"
      by (auto simp: find_learning_rate_def Let_def split: sum.splits)
    from fitted obtain f0 where
      run: "fit_epochs ts (ceil_div len_X batch_size) 0 epochs (ExponentialLearningRate_init f0)
              (m0\<lparr>learning_rate := min_rate\<rparr>) = Inr (cb2, m2)"
      by (auto simp: find_learning_rate_fit_def fit_def epoch_steps_def Let_def
          split: sum.splits if_splits)
    from fit_epochs_rates [OF run] out show ?thesis
      by (auto simp: ExponentialLearningRate_init_def mult.commute)
  qed
  from init epoch batch probe show ?thesis by blast
qed

theorem rates_losses_same_length_witness:
  "on_batch_end (on_epoch_begin (ExponentialLearningRate_init 2) 0 None)
       \<lparr>weights = (), learning_rate = 1 / 100, other_state = ()\<rparr> 0 (Some [''loss'' \<mapsto> 5])
     = Inr (\<lparr>factor = 2, rates = [1 / 100], losses = [5], sum_of_epoch_losses = Some 5\<rparr>,
            \<lparr>weights = (), learning_rate = 1 / 50, other_state = ()\<rparr>)
   \<and> length (rates \<lparr>factor = 2, rates = [1 / 100], losses = [5], sum_of_epoch_losses = Some 5\<rparr>)
       = Suc (length (rates (on_epoch_begin (ExponentialLearningRate_init 2) 0 None)))
   \<and> find_learning_rate counting_step \<lparr>weights = (), learning_rate = 1 / 1000, other_state = 0\<rparr>
       1 1 1 (1 / 10000) 1
     = Inr (([1 / 10000], [1]), \<lparr>weights = (), learning_rate = 1 / 1000, other_state = 1\<rparr>)
   \<and> length [1 / 10000 :: real] = length [1 :: real]
   \<and> length [1 / 10000 :: real] = ceil_div 1 1 * 1"
  using rates_losses_same_length
    [where cb = "on_epoch_begin (ExponentialLearningRate_init 2) 0 None"
       and m = "\<lparr>weights = (), learning_rate = 1 / 100, other_state = ()\<rparr>"
       and batch = 0 and lg = "Some [''loss'' \<mapsto> 5]"
       and cb' = "\<lparr>factor = 2, rates = [1 / 100], losses = [5], sum_of_epoch_losses = Some 5\<rparr>"
       and m' = "\<lparr>weights = (), learning_rate = 1 / 50, other_state = ()\<rparr>"
       and ts = counting_step
       and ?m0.0 = "\<lparr>weights = (), learning_rate = 1 / 1000, other_state = 0\<rparr>"
       and len_X = 1 and epochs = 1 and batch_size = 1 and min_rate = "1 / 10000" and max_rate = 1
       and rs = "[1 / 10000]" and ls = "[1]"
       and ?m1.0 = "\<lparr>weights = (), learning_rate = 1 / 1000, other_state = 1\<rparr>"]
    find_learning_rate_counting_run
  by (simp add: on_epoch_begin_def on_batch_end_def ExponentialLearningRate_init_def Let_def
      ceil_div_def)

section \<open>The one-cycle schedule\<close>

text \<open>The three linear pieces, each with both of its end points.\<close>

lemma one_cycle_segments:
  fixes self :: "'a OneCycleScheduler_scheme"
  assumes "0 < half_iteration self" and "2 * half_iteration self < iterations self"
  shows "0 \<le> i \<Longrightarrow> i \<le> half_iteration self \<Longrightarrow>
         one_cycle_lr (self\<lparr>iteration := i\<rparr>) =
           Inr (start_lr self
                + (max_lr self - start_lr self) * (of_int i / of_int (half_iteration self)))"
    and "half_iteration self \<le> i \<Longrightarrow> i \<le> 2 * half_iteration self \<Longrightarrow>
         one_cycle_lr (self\<lparr>iteration := i\<rparr>) =
           Inr (max_lr self
                + (start_lr self - max_lr self)
                  * (of_int (i - half_iteration self) / of_int (half_iteration self)))"
    and "2 * half_iteration self \<le> i \<Longrightarrow>
         one_cycle_lr (self\<lparr>iteration := i\<rparr>) =
           Inr (start_lr self
                + (last_lr self - start_lr self)
                  * (of_int (i - 2 * half_iteration self)
                     / of_int (iterations self - 2 * half_iteration self)))"
  using assms by (auto simp: one_cycle_lr_def interpolate_def field_simps)

lemma slope_up:
  fixes d :: real
  assumes "0 < d" and "0 < h"
  shows "a + d * (of_int j / of_int h) < a + d * (of_int (j + 1) / of_int h)"
proof -
  have "real_of_int j / of_int h < of_int (j + 1) / of_int h"
    using assms by (simp add: divide_strict_right_mono)
  from mult_strict_left_mono [OF this assms(1)] show ?thesis by simp
qed

lemma slope_down:
  fixes d :: real
  assumes "d < 0" and "0 < h"
  shows "a + d * (of_int (j + 1) / of_int h) < a + d * (of_int j / of_int h)"
proof -
  have "real_of_int j / of_int h < of_int (j + 1) / of_int h"
    using assms by (simp add: divide_strict_right_mono)
  from mult_strict_left_mono_neg [OF this assms(1)] show ?thesis by simp
qed

text \<open>From one batch to the next the rate moves in the direction of its piece.\<close>

lemma one_cycle_directions:
  fixes self :: "'a OneCycleScheduler_scheme"
  assumes h: "0 < half_iteration self" and t: "2 * half_iteration self < iterations self"
    and up: "start_lr self < max_lr self" and down: "last_lr self < start_lr self"
  shows "0 \<le> i \<Longrightarrow> i < half_iteration self \<Longrightarrow>
         \<exists>r r'. one_cycle_lr (self\<lparr>iteration := i\<rparr>) = Inr r
              \<and> one_cycle_lr (self\<lparr>iteration := i + 1\<rparr>) = Inr r' \<and> r < r'"
    and "half_iteration self \<le> i \<Longrightarrow> i < 2 * half_iteration self \<Longrightarrow>
         \<exists>r r'. one_cycle_lr (self\<lparr>iteration := i\<rparr>) = Inr r
              \<and> one_cycle_lr (self\<lparr>iteration := i + 1\<rparr>) = Inr r' \<and> r' < r"
    and "2 * half_iteration self \<le> i \<Longrightarrow>
         \<exists>r r'. one_cycle_lr (self\<lparr>iteration := i\<rparr>) = Inr r
              \<and> one_cycle_lr (self\<lparr>iteration := i + 1\<rparr>) = Inr r' \<and> r' < r"
proof -
  note seg = one_cycle_segments [OF h t]
  show "\<exists>r r'. one_cycle_lr (self\<lparr>iteration := i\<rparr>) = Inr r
              \<and> one_cycle_lr (self\<lparr>iteration := i + 1\<rparr>) = Inr r' \<and> r < r'"
    if "0 \<le> i" "i < half_iteration self"
  proof -
    from that have a: "one_cycle_lr (self\<lparr>iteration := i\<rparr>) =
           Inr (start_lr self
                + (max_lr self - start_lr self) * (of_int i / of_int (half_iteration self)))"
      by (intro seg(1)) simp_all
    from that have b: "one_cycle_lr (self\<lparr>iteration := i + 1\<rparr>) =
           Inr (start_lr self
                + (max_lr self - start_lr self) * (of_int (i + 1) / of_int (half_iteration self)))"
      by (intro seg(1)) simp_all
    from up have "0 < max_lr self - start_lr self" by simp
    from slope_up [OF this h] a b show ?thesis by blast
  qed
  show "\<exists>r r'. one_cycle_lr (self\<lparr>iteration := i\<rparr>) = Inr r
              \<and> one_cycle_lr (self\<lparr>iteration := i + 1\<rparr>) = Inr r' \<and> r' < r"
    if "half_iteration self \<le> i" "i < 2 * half_iteration self"
  proof -
    from that have a: "one_cycle_lr (self\<lparr>iteration := i\<rparr>) =
           Inr (max_lr self
                + (start_lr self - max_lr self)
                  * (of_int (i - half_iteration self) / of_int (half_iteration self)))"
      by (intro seg(2)) simp_all
    from that have b: "one_cycle_lr (self\<lparr>iteration := i + 1\<rparr>) =
           Inr (max_lr self
                + (start_lr self - max_lr self)
                  * (of_int (i + 1 - half_iteration self) / of_int (half_iteration self)))"
      by (intro seg(2)) simp_all
    have c: "i + 1 - half_iteration self = (i - half_iteration self) + 1" by simp
    from up have "start_lr self - max_lr self < 0" by simp
    from slope_down [OF this h, of "max_lr self" "i - half_iteration self"] a b c
    show ?thesis by auto
  qed
  show "\<exists>r r'. one_cycle_lr (self\<lparr>iteration := i\<rparr>) = Inr r
              \<and> one_cycle_lr (self\<lparr>iteration := i + 1\<rparr>) = Inr r' \<and> r' < r"
    if "2 * half_iteration self \<le> i"
  proof -
    from that have a: "one_cycle_lr (self\<lparr>iteration := i\<rparr>) =
           Inr (start_lr self
                + (last_lr self - start_lr self)
                  * (of_int (i - 2 * half_iteration self)
                     / of_int (iterations self - 2 * half_iteration self)))"
      by (intro seg(3)) simp_all
    from that have b: "one_cycle_lr (self\<lparr>iteration := i + 1\<rparr>) =
           Inr (start_lr self
                + (last_lr self - start_lr self)
                  * (of_int (i + 1 - 2 * half_iteration self)
                     / of_int (iterations self - 2 * half_iteration self)))"
      by (intro seg(3)) simp_all
    have c: "i + 1 - 2 * half_iteration self = (i - 2 * half_iteration self) + 1" by simp
    from t have d: "0 < iterations self - 2 * half_iteration self" by simp
    from down have "last_lr self - start_lr self < 0" by simp
    from slope_down [OF this d, of "start_lr self" "i - 2 * half_iteration self"] a b c
    show ?thesis by auto
  qed
qed

text \<open>What the constructor guarantees about the last phase and the default rates.\<close>

lemma constructor_last_phase:
  assumes "0 \<le> its" and "li = None \<or> (\<exists>k. li = Some k \<and> 1 \<le> k)"
  shows "2 * half_iteration (OneCycleScheduler_init its mx st li la)
           < iterations (OneCycleScheduler_init its mx st li la)"
  using assms by (auto simp: OneCycleScheduler_init_def py_or_def Let_def)

lemma constructor_default_rates:
  assumes "0 < mx"
  shows "start_lr (OneCycleScheduler_init its mx None li None)
           < max_lr (OneCycleScheduler_init its mx None li None)
       \<and> last_lr (OneCycleScheduler_init its mx None li None)
           < start_lr (OneCycleScheduler_init its mx None li None)"
  using assms by (auto simp: OneCycleScheduler_init_def py_or_def Let_def)

text \<open>
  Claim C4, as far as it holds. For a scheduler with \<open>0 < half_iteration\<close>,
  \<open>2 * half_iteration < iterations\<close>, \<open>start_lr < max_lr\<close> and \<open>last_lr < start_lr\<close>, the
  rate is piecewise linear in the counter \<open>i\<close>: it rises linearly from \<^verbatim>\<open>start_lr\<close> at
  \<open>i = 0\<close> to \<^verbatim>\<open>max_lr\<close> at \<open>i = half_iteration\<close>, falls linearly back to \<^verbatim>\<open>start_lr\<close> at
  \<open>i = 2 * half_iteration\<close> and falls linearly to \<^verbatim>\<open>last_lr\<close> at \<open>i = iterations\<close>; each
  \<^verbatim>\<open>on_batch_begin\<close> assigns the rate of its counter and moves the counter by one. The
  constructor gives \<open>2 * half_iteration < iterations\<close> whenever \<^verbatim>\<open>iterations\<close> is not
  negative and \<^verbatim>\<open>last_iterations\<close> is left at its default or is at least 1, and it gives
  \<open>start_lr < max_lr\<close> and \<open>last_lr < start_lr\<close> whenever \<^verbatim>\<open>max_lr\<close> is positive and
  \<^verbatim>\<open>start_lr\<close> and \<^verbatim>\<open>last_lr\<close> are left at their defaults.
\<close>

theorem one_cycle_piecewise_linear:
  fixes self :: "'a OneCycleScheduler_scheme"
  shows
   "(0 \<le> its \<and> (li = None \<or> (\<exists>k. li = Some k \<and> 1 \<le> k)) \<longrightarrow>
       2 * half_iteration (OneCycleScheduler_init its mx st li la)
         < iterations (OneCycleScheduler_init its mx st li la))
  \<and> (0 < mx \<longrightarrow>
       start_lr (OneCycleScheduler_init its mx None li None)
         < max_lr (OneCycleScheduler_init its mx None li None)
     \<and> last_lr (OneCycleScheduler_init its mx None li None)
         < start_lr (OneCycleScheduler_init its mx None li None))
  \<and> (0 < half_iteration self \<and> 2 * half_iteration self < iterations self
      \<and> start_lr self < max_lr self \<and> last_lr self < start_lr self \<longrightarrow>
       one_cycle_lr (self\<lparr>iteration := 0\<rparr>) = Inr (start_lr self)
     \<and> one_cycle_lr (self\<lparr>iteration := half_iteration self\<rparr>) = Inr (max_lr self)
     \<and> one_cycle_lr (self\<lparr>iteration := 2 * half_iteration self\<rparr>) = Inr (start_lr self)
     \<and> one_cycle_lr (self\<lparr>iteration := iterations self\<rparr>) = Inr (last_lr self)
     \<and> (0 \<le> i \<and> i \<le> half_iteration self \<longrightarrow>
         one_cycle_lr (self\<lparr>iteration := i\<rparr>) =
           Inr (start_lr self
                + (max_lr self - start_lr self) * (of_int i / of_int (half_iteration self))))
     \<and> (half_iteration self \<le> i \<and> i \<le> 2 * half_iteration self \<longrightarrow>
         one_cycle_lr (self\<lparr>iteration := i\<rparr>) =
           Inr (max_lr self
                + (start_lr self - max_lr self)
                  * (of_int (i - half_iteration self) / of_int (half_iteration self))))
     \<and> (2 * half_iteration self \<le> i \<longrightarrow>
         one_cycle_lr (self\<lparr>iteration := i\<rparr>) =
           Inr (start_lr self
                + (last_lr self - start_lr self)
                  * (of_int (i - 2 * half_iteration self)
                     / of_int (iterations self - 2 * half_iteration self))))
     \<and> (0 \<le> i \<and> i < half_iteration self \<longrightarrow>
         (\<exists>r r'. one_cycle_lr (self\<lparr>iteration := i\<rparr>) = Inr r
              \<and> one_cycle_lr (self\<lparr>iteration := i + 1\<rparr>) = Inr r' \<and> r < r'))
     \<and> (half_iteration self \<le> i \<and> i < 2 * half_iteration self \<longrightarrow>
         (\<exists>r r'. one_cycle_lr (self\<lparr>iteration := i\<rparr>) = Inr r
              \<and> one_cycle_lr (self\<lparr>iteration := i + 1\<rparr>) = Inr r' \<and> r' < r))
     \<and> (2 * half_iteration self \<le> i \<longrightarrow>
         (\<exists>r r'. one_cycle_lr (self\<lparr>iteration := i\<rparr>) = Inr r
              \<and> one_cycle_lr (self\<lparr>iteration := i + 1\<rparr>) = Inr r' \<and> r' < r))
     \<and> (\<exists>lr. one_cycle_lr (self\<lparr>iteration := i\<rparr>) = Inr lr
          \<and> on_batch_begin (self\<lparr>iteration := i\<rparr>) m batch lg
              = Inr (self\<lparr>iteration := i + 1\<rparr>, m\<lparr>learning_rate := lr\<rparr>)))"
proof (intro conjI impI)
  assume "0 \<le> its \<and> (li = None \<or> (\<exists>k. li = Some k \<and> 1 \<le> k))"
  then show "2 * half_iteration (OneCycleScheduler_init its mx st li la)
         < iterations (OneCycleScheduler_init its mx st li la)"
    by (intro constructor_last_phase) simp_all
next
  assume "0 < mx"
  from constructor_default_rates [OF this]
  show "start_lr (OneCycleScheduler_init its mx None li None)
         < max_lr (OneCycleScheduler_init its mx None li None)"
    by blast
next
  assume "0 < mx"
  from constructor_default_rates [OF this]
  show "last_lr (OneCycleScheduler_init its mx None li None)
         < start_lr (OneCycleScheduler_init its mx None li None)"
    by blast
next
  assume a: "0 < half_iteration self \<and> 2 * half_iteration self < iterations self
      \<and> start_lr self < max_lr self \<and> last_lr self < start_lr self"
  then show "one_cycle_lr (self\<lparr>iteration := 0\<rparr>) = Inr (start_lr self)"
    by (simp add: one_cycle_lr_def interpolate_def)
  from a show "one_cycle_lr (self\<lparr>iteration := half_iteration self\<rparr>) = Inr (max_lr self)"
    by (simp add: one_cycle_lr_def interpolate_def)
  from a show "one_cycle_lr (self\<lparr>iteration := 2 * half_iteration self\<rparr>) = Inr (start_lr self)"
    by (simp add: one_cycle_lr_def interpolate_def)
  from a show "one_cycle_lr (self\<lparr>iteration := iterations self\<rparr>) = Inr (last_lr self)"
    by (simp add: one_cycle_lr_def interpolate_def)
  from a show "\<exists>lr. one_cycle_lr (self\<lparr>iteration := i\<rparr>) = Inr lr
          \<and> on_batch_begin (self\<lparr>iteration := i\<rparr>) m batch lg
              = Inr (self\<lparr>iteration := i + 1\<rparr>, m\<lparr>learning_rate := lr\<rparr>)"
    by (auto simp: one_cycle_lr_def interpolate_def on_batch_begin_def)
next
  assume a: "0 < half_iteration self \<and> 2 * half_iteration self < iterations self
      \<and> start_lr self < max_lr self \<and> last_lr self < start_lr self"
    and i: "0 \<le> i \<and> i \<le> half_iteration self"
  from a i show "one_cycle_lr (self\<lparr>iteration := i\<rparr>) =
           Inr (start_lr self
                + (max_lr self - start_lr self) * (of_int i / of_int (half_iteration self)))"
    by (intro one_cycle_segments(1)) simp_all
next
  assume a: "0 < half_iteration self \<and> 2 * half_iteration self < iterations self
      \<and> start_lr self < max_lr self \<and> last_lr self < start_lr self"
    and i: "half_iteration self \<le> i \<and> i \<le> 2 * half_iteration self"
  from a i show "one_cycle_lr (self\<lparr>iteration := i\<rparr>) =
           Inr (max_lr self
                + (start_lr self - max_lr self)
                  * (of_int (i - half_iteration self) / of_int (half_iteration self)))"
    by (intro one_cycle_segments(2)) simp_all
next
  assume a: "0 < half_iteration self \<and> 2 * half_iteration self < iterations self
      \<and> start_lr self < max_lr self \<and> last_lr self < start_lr self"
    and i: "2 * half_iteration self \<le> i"
  from a i show "one_cycle_lr (self\<lparr>iteration := i\<rparr>) =
           Inr (start_lr self
                + (last_lr self - start_lr self)
                  * (of_int (i - 2 * half_iteration self)
                     / of_int (iterations self - 2 * half_iteration self)))"
    by (intro one_cycle_segments(3)) simp_all
next
  assume a: "0 < half_iteration self \<and> 2 * half_iteration self < iterations self
      \<and> start_lr self < max_lr self \<and> last_lr self < start_lr self"
    and i: "0 \<le> i \<and> i < half_iteration self"
  from a i show "\<exists>r r'. one_cycle_lr (self\<lparr>iteration := i\<rparr>) = Inr r
              \<and> one_cycle_lr (self\<lparr>iteration := i + 1\<rparr>) = Inr r' \<and> r < r'"
    by (intro one_cycle_directions(1)) simp_all
next
  assume a: "0 < half_iteration self \<and> 2 * half_iteration self < iterations self
      \<and> start_lr self < max_lr self \<and> last_lr self < start_lr self"
    and i: "half_iteration self \<le> i \<and> i < 2 * half_iteration self"
  from a i show "\<exists>r r'. one_cycle_lr (self\<lparr>iteration := i\<rparr>) = Inr r
              \<and> one_cycle_lr (self\<lparr>iteration := i + 1\<rparr>) = Inr r' \<and> r' < r"
    by (intro one_cycle_directions(2)) simp_all
next
  assume a: "0 < half_iteration self \<and> 2 * half_iteration self < iterations self
      \<and> start_lr self < max_lr self \<and> last_lr self < start_lr self"
    and i: "2 * half_iteration self \<le> i"
  from a i show "\<exists>r r'. one_cycle_lr (self\<lparr>iteration := i\<rparr>) = Inr r
              \<and> one_cycle_lr (self\<lparr>iteration := i + 1\<rparr>) = Inr r' \<and> r' < r"
    by (intro one_cycle_directions(3)) simp_all
qed

theorem one_cycle_piecewise_linear_witness:
  "(0::int) \<le> 25 \<and> (0::real) < 1
   \<and> 0 < half_iteration (OneCycleScheduler_init 25 1 None None None)
   \<and> 2 * half_iteration (OneCycleScheduler_init 25 1 None None None)
       < iterations (OneCycleScheduler_init 25 1 None None None)
   \<and> start_lr (OneCycleScheduler_init 25 1 None None None)
       < max_lr (OneCycleScheduler_init 25 1 None None None)
   \<and> last_lr (OneCycleScheduler_init 25 1 None None None)
       < start_lr (OneCycleScheduler_init 25 1 None None None)
   \<and> one_cycle_lr ((OneCycleScheduler_init 25 1 None None None)\<lparr>iteration := 0\<rparr>) = Inr (1 / 10)
   \<and> one_cycle_lr ((OneCycleScheduler_init 25 1 None None None)\<lparr>iteration := 5\<rparr>) = Inr (28 / 55)
   \<and> one_cycle_lr ((OneCycleScheduler_init 25 1 None None None)\<lparr>iteration := 6\<rparr>) = Inr (13 / 22)
   \<and> (28 / 55 :: real) < 13 / 22
   \<and> one_cycle_lr ((OneCycleScheduler_init 25 1 None None None)\<lparr>iteration := 11\<rparr>) = Inr 1
   \<and> one_cycle_lr ((OneCycleScheduler_init 25 1 None None None)\<lparr>iteration := 22\<rparr>) = Inr (1 / 10)
   \<and> one_cycle_lr ((OneCycleScheduler_init 25 1 None None None)\<lparr>iteration := 25\<rparr>) = Inr (1 / 10000)"
  using one_cycle_piecewise_linear
    [where self = "OneCycleScheduler_init 25 1 None None None" and its = 25 and mx = 1
       and st = None and li = None and la = None and i = 5
       and m = "\<lparr>weights = (), learning_rate = 1 / 100, other_state = ()\<rparr>"
       and batch = 5 and lg = None]
  by (simp add: OneCycleScheduler_init_def py_or_def Let_def one_cycle_lr_def interpolate_def)

text \<open>
  Claim C4 as stated asks for \<open>0 < half_iteration\<close> only. The constructor takes the rates
  and the length of the last phase as they are given. With
  \<^verbatim>\<open>OneCycleScheduler(25, max_lr=1, start_lr=2, last_lr=3)\<close> the half is 11 and the rate
  is 2, 1, 2, 3 at the counter values 0, 11, 22, 25: it falls where the claim has it
  rise and rises where the claim has it fall. With
  \<^verbatim>\<open>OneCycleScheduler(10, max_lr=1, last_iterations=-4)\<close> the half is 7, the counter value
  \<open>iterations = 10\<close> lies on the second piece, and the rate there is \<open>43/70\<close>, not
  \<^verbatim>\<open>last_lr\<close>.
\<close>

theorem one_cycle_direction_and_end_point_counterexample:
  "0 < half_iteration (OneCycleScheduler_init 25 1 (Some 2) None (Some 3))
   \<and> one_cycle_lr ((OneCycleScheduler_init 25 1 (Some 2) None (Some 3))\<lparr>iteration := 0\<rparr>) = Inr 2
   \<and> one_cycle_lr ((OneCycleScheduler_init 25 1 (Some 2) None (Some 3))\<lparr>iteration := 11\<rparr>) = Inr 1
   \<and> one_cycle_lr ((OneCycleScheduler_init 25 1 (Some 2) None (Some 3))\<lparr>iteration := 22\<rparr>) = Inr 2
   \<and> one_cycle_lr ((OneCycleScheduler_init 25 1 (Some 2) None (Some 3))\<lparr>iteration := 25\<rparr>) = Inr 3
   \<and> 0 < half_iteration (OneCycleScheduler_init 10 1 None (Some (- 4)) None)
   \<and> iterations (OneCycleScheduler_init 10 1 None (Some (- 4)) None) = 10
   \<and> last_lr (OneCycleScheduler_init 10 1 None (Some (- 4)) None) = 1 / 10000
   \<and> one_cycle_lr ((OneCycleScheduler_init 10 1 None (Some (- 4)) None)\<lparr>iteration := 10\<rparr>)
       = Inr (43 / 70)
   \<and> one_cycle_lr ((OneCycleScheduler_init 10 1 None (Some (- 4)) None)\<lparr>iteration := 10\<rparr>)
       \<noteq> Inr (last_lr (OneCycleScheduler_init 10 1 None (Some (- 4)) None))"
  by (simp add: OneCycleScheduler_init_def py_or_def Let_def one_cycle_lr_def interpolate_def)

text \<open>
  Claim C10. With \<^verbatim>\<open>last_iterations\<close> left at its default and \<open>iterations \<ge> 1\<close>,
  \<^verbatim>\<open>last_iterations = iterations // 10 + 1\<close> and
  \<^verbatim>\<open>half_iteration = (iterations - last_iterations) // 2\<close>; the first two branches of
  \<^verbatim>\<open>on_batch_begin\<close> are taken only when \<open>half_iteration \<ge> 1\<close>, the divisor
  \<open>iterations - 2 * half_iteration\<close> of the third branch is at least 1, and so
  \<^verbatim>\<open>on_batch_begin\<close> never divides by zero.
\<close>

theorem one_cycle_default_no_zero_division:
  assumes "1 \<le> its"
  shows "(0 \<le> i \<and> (i < half_iteration (OneCycleScheduler_init its mx st None la)
                  \<or> i < 2 * half_iteration (OneCycleScheduler_init its mx st None la))
            \<longrightarrow> 1 \<le> half_iteration (OneCycleScheduler_init its mx st None la))
       \<and> last_iterations (OneCycleScheduler_init its mx st None la) = its div 10 + 1
       \<and> half_iteration (OneCycleScheduler_init its mx st None la) = (its - (its div 10 + 1)) div 2
       \<and> 1 \<le> iterations (OneCycleScheduler_init its mx st None la)
               - 2 * half_iteration (OneCycleScheduler_init its mx st None la)
       \<and> (0 \<le> i \<longrightarrow>
            (\<exists>lr. on_batch_begin ((OneCycleScheduler_init its mx st None la)\<lparr>iteration := i\<rparr>) m batch lg
                    = Inr ((OneCycleScheduler_init its mx st None la)\<lparr>iteration := i + 1\<rparr>,
                           m\<lparr>learning_rate := lr\<rparr>)))"
  using assms
  by (auto simp: OneCycleScheduler_init_def py_or_def Let_def one_cycle_lr_def interpolate_def
      on_batch_begin_def)

theorem one_cycle_default_no_zero_division_witness:
  "(1::int) \<le> 25
   \<and> half_iteration (OneCycleScheduler_init 25 1 None None None) = 11
   \<and> iterations (OneCycleScheduler_init 25 1 None None None)
       - 2 * half_iteration (OneCycleScheduler_init 25 1 None None None) = 3
   \<and> on_batch_begin ((OneCycleScheduler_init 25 1 None None None)\<lparr>iteration := 5\<rparr>)
        \<lparr>weights = (), learning_rate = 1 / 100, other_state = ()\<rparr> 5 None
      = Inr ((OneCycleScheduler_init 25 1 None None None)\<lparr>iteration := 6\<rparr>,
             \<lparr>weights = (), learning_rate = 28 / 55, other_state = ()\<rparr>)"
  using one_cycle_default_no_zero_division [of 25 5 1 None None
      "\<lparr>weights = (), learning_rate = 1 / 100, other_state = ()\<rparr>" 5 None]
  by (simp add: OneCycleScheduler_init_def py_or_def Let_def one_cycle_lr_def interpolate_def
      on_batch_begin_def)

section \<open>The instantiated schedules of the framework\<close>

text \<open>
  Claim C5. The exponential schedule is \<open>\<eta>(t) = \<eta>\<^sub>0 \<cdot> \<gamma>\<^bsup>t/s\<^esup>\<close> with \<open>\<eta>\<^sub>0 = 0.1\<close>,
  \<open>\<gamma> = 0.95\<close> and \<open>s = n_steps = 10 * ceil(len(X_train) / 32)\<close>, so that the rate has
  decayed by exactly one factor 0.95 at the end of the run: \<open>\<eta>(n_steps) = 0.095\<close>. The
  training set is not empty.
\<close>

theorem exponential_schedule_instance:
  assumes "0 < len_X_train"
  shows "n_steps len_X_train = 10 * nat \<lceil>real len_X_train / 32\<rceil>
     \<and> lr_schedule_exponential len_X_train t
          = Some (1 / 10 * (95 / 100) powr (real_of_int t / real (n_steps len_X_train)))
     \<and> lr_schedule_exponential len_X_train 0 = Some (1 / 10)
     \<and> lr_schedule_exponential len_X_train (int (n_steps len_X_train)) = Some (95 / 1000)"
proof -
  have "0 < ceil_div len_X_train 32" using assms by (simp add: ceil_div_pos)
  then have n: "0 < n_steps len_X_train" by (simp add: n_steps_def)
  have def: "n_steps len_X_train = 10 * nat \<lceil>real len_X_train / 32\<rceil>"
    by (simp add: n_steps_def ceil_div_def)
  have run: "lr_schedule_exponential len_X_train t
      = Some (1 / 10 * (95 / 100) powr (real_of_int t / real (n_steps len_X_train)))" for t
    using n by (simp add: lr_schedule_exponential_def ExponentialDecay_def tf_div_def tf_pow_def)
  have first: "lr_schedule_exponential len_X_train 0 = Some (1 / 10)"
    by (simp add: run)
  have last: "lr_schedule_exponential len_X_train (int (n_steps len_X_train)) = Some (95 / 1000)"
    using n by (simp add: run)
  from def run first last show ?thesis by blast
qed

theorem exponential_schedule_instance_witness:
  "(0::nat) < 55000 \<and> n_steps 55000 = 17190
   \<and> lr_schedule_exponential 55000 17190 = Some (95 / 1000)"
  using exponential_schedule_instance [of 55000 0]
  by (simp add: n_steps_def ceil_div_def)

text \<open>
  The thresholds of the piecewise-constant schedule in steps: 0.1 for \<open>t \<le> b1\<close>, 0.05
  for \<open>b1 < t \<le> b2\<close> and 0.005 for \<open>t > b2\<close>, where
  \<open>b1 = 3 * ceil(len(X_train) / batch_size)\<close> and \<open>b2 = 2 * b1\<close>.
\<close>

lemma piecewise_schedule_instance:
  assumes "0 < batch_size"
  shows "b1 len_X_train batch_size = Inr (3 * int (ceil_div len_X_train batch_size))
     \<and> b2 len_X_train batch_size = Inr (2 * (3 * int (ceil_div len_X_train batch_size)))
     \<and> lr_schedule_piecewise len_X_train batch_size t =
         Inr (if t \<le> 3 * int (ceil_div len_X_train batch_size) then 1 / 10
              else if t \<le> 2 * (3 * int (ceil_div len_X_train batch_size)) then 5 / 100
              else 5 / 1000)"
  using assms
  by (simp add: lr_schedule_piecewise_def b1_def b2_def epoch_steps_def)

text \<open>
  Claim C6. The claim reads these thresholds as 0.1 for the first three epochs of
  batches, 0.05 for the next three and 0.005 thereafter, which is what the cell's
  comment asks for. A boundary step still has the earlier rate, and the optimizer counts
  its steps from 0: with 55000 training images and batches of 32 an epoch has 1719
  batches, the first batch of the fourth epoch is step \<open>3 * 1719 = b1\<close> and is trained
  with 0.1, and the first batch of the seventh epoch is step \<open>6 * 1719 = b2\<close> and is
  trained with 0.05. The batches before and after them have the rates the claim says.
\<close>

theorem piecewise_schedule_boundary_steps:
  "epoch_steps 55000 32 = Inr 1719
   \<and> b1 55000 32 = Inr (optimizer_step 1719 3 0)
   \<and> b2 55000 32 = Inr (optimizer_step 1719 6 0)
   \<and> lr_schedule_piecewise 55000 32 (optimizer_step 1719 2 1718) = Inr (1 / 10)
   \<and> lr_schedule_piecewise 55000 32 (optimizer_step 1719 3 0) = Inr (1 / 10)
   \<and> lr_schedule_piecewise 55000 32 (optimizer_step 1719 3 1) = Inr (5 / 100)
   \<and> lr_schedule_piecewise 55000 32 (optimizer_step 1719 5 1718) = Inr (5 / 100)
   \<and> lr_schedule_piecewise 55000 32 (optimizer_step 1719 6 0) = Inr (5 / 100)
   \<and> lr_schedule_piecewise 55000 32 (optimizer_step 1719 6 1) = Inr (5 / 1000)"
  by (simp add: lr_schedule_piecewise_def b1_def b2_def epoch_steps_def ceil_div_def
      optimizer_step_def)

end
